theory Spec2Isabelle
  imports Complex_Main "HOL-Library.Word" "HOL-Library.Sublist"
begin

section \<open>The message formatter form (src/src/App.tsx)\<close>

text \<open>
  The component \<open>App\<close> holds five pieces of React state, builds one chat-completion
  request from them and writes the reply (or a fixed failure text) back into the state.
  The embedding follows the source top to bottom: the module constants, the state,
  \<open>getModeInstruction\<close>, and \<open>handleSubmit\<close> as a program whose constructors are the
  statements of the handler in the order the source runs them.
\<close>

subsection \<open>JavaScript strings and values\<close>

text \<open>
  A JavaScript string is a sequence of 16-bit code units. \<open>ascii\<close> reads an ASCII
  literal of the source as such a sequence.
\<close>

type_synonym jsstring = "16 word list"

definition ascii :: "string \<Rightarrow> jsstring" where
  "ascii s = map of_char s"

text \<open>
  \<open>String.prototype.trim\<close> removes, at both ends, the code points of ECMAScript's
  WhiteSpace and LineTerminator productions: TAB, LF, VT, FF, CR, SP, NBSP, the
  remaining members of Unicode category Zs, LS, PS and the byte order mark. All of
  them are single code units.
\<close>

definition isWhiteSpace :: "16 word \<Rightarrow> bool" where
  "isWhiteSpace c = (c \<in> {0x0009, 0x000A, 0x000B, 0x000C, 0x000D, 0x0020, 0x00A0, 0x1680,
      0x2000, 0x2001, 0x2002, 0x2003, 0x2004, 0x2005, 0x2006, 0x2007, 0x2008, 0x2009,
      0x200A, 0x2028, 0x2029, 0x202F, 0x205F, 0x3000, 0xFEFF})"

definition trim :: "jsstring \<Rightarrow> jsstring" where
  "trim s = rev (dropWhile isWhiteSpace (rev (dropWhile isWhiteSpace s)))"

text \<open>
  The values \<open>getModeInstruction\<close> can hold: \<open>undefined\<close>, a string, or a member that
  the object literal \<open>MODE_INSTRUCTIONS\<close> inherits from \<open>Object.prototype\<close>
  (\<open>Builtin k\<close> is the value of \<open>Object.prototype[k]\<close>: a function object, or for
  \<open>__proto__\<close> the prototype object itself).
\<close>

datatype jsval = Undefined | Str jsstring | Builtin jsstring

text \<open>
  Values parsed from, or serialised to, JSON. An object is the list of its own
  properties; the first pair with a given key is the property.
\<close>

datatype json =
    JNull
  | JBool bool
  | JNum rat
  | JString jsstring
  | JArray "json list"
  | JObject "(jsstring \<times> json) list"

text \<open>
  What the source takes from outside the file: the build-time variable
  \<open>VITE_OPENAI_API_KEY\<close> (a string, or undefined when it is not set), the text the engine
  gives for an inherited member of \<open>Object.prototype\<close> when a template literal converts
  it to a string (engines differ in the text of a native function), and the built-in
  \<open>JSON.stringify\<close>.
\<close>

record runtime =
  openAiApiKey :: "jsstring option"
  builtin_text :: "jsstring \<Rightarrow> jsstring"
  JSON_stringify :: "json \<Rightarrow> jsstring"

fun ToString :: "runtime \<Rightarrow> jsval \<Rightarrow> jsstring" where
  "ToString rt Undefined = ascii ''undefined''"
| "ToString rt (Str s) = s"
| "ToString rt (Builtin k) = builtin_text rt k"

fun truthy :: "jsval \<Rightarrow> bool" where
  "truthy Undefined = False"
| "truthy (Str s) = (s \<noteq> [])"
| "truthy (Builtin k) = True"

text \<open>The operator \<open>a || b\<close>.\<close>

definition or_else :: "jsval \<Rightarrow> jsval \<Rightarrow> jsval" where
  "or_else a b = (if truthy a then a else b)"

subsection \<open>Module constants\<close>

definition SYSTEM_MESSAGE :: jsstring where
  "SYSTEM_MESSAGE = ascii (
     ''\<newline>'' @
     ''You are a message formatter AI. Your task is to transform any input text into a polished, professional message suitable for client communication, strictly following the provided instructions.\<newline>'' @
     ''\<newline>'' @
     ''**Guardrails**:\<newline>'' @
     ''\<newline>'' @
     ''1. **Instruction Fidelity**:\<newline>'' @
     ''   - Adhere strictly to the instructions given in each prompt without deviation.\<newline>'' @
     ''   - Avoid overriding, disregarding, or adding to the instructions unless explicitly directed to do so by the prompt.\<newline>'' @
     ''   - If unclear or conflicting information is present, prioritize clarity and professionalism, but do not invent or assume details beyond the prompt's content.\<newline>'' @
     ''   - Always respect the communication mode specified (e.g., Email, Chat) and format the response accordingly.\<newline>'' @
     ''\<newline>'' @
     ''2. **Input Clarity**:\<newline>'' @
     ''   - If the input text does not provide a coherent or meaningful message, or if it lacks necessary information, prompt the user for a clearer, more complete input.\<newline>'' @
     ''   \<newline>'' @
     ''Your goal is to consistently produce output that aligns exactly with the provided instructions, ensuring the response remains professional and suitable for client communication.\<newline>'')"

text \<open>
  \<open>AI_PROMPT\<close> is a template literal: both placeholders are converted with ToString
  and spliced between the fixed pieces. \<open>userInput\<close> is always a string (the state
  \<open>inputMessage\<close>); \<open>modeInstruction\<close> is whatever \<open>getModeInstruction\<close> returned.
\<close>

definition AI_PROMPT :: "runtime \<Rightarrow> jsstring \<Rightarrow> jsval \<Rightarrow> jsstring" where
  "AI_PROMPT rt userInput modeInstruction =
     ascii ''\<newline>Raw Input Text: '' @ userInput @
     ascii ''\<newline>\<newline>Instructions:\<newline>'' @ ToString rt modeInstruction @
     ascii (''\<newline>Output Goal:\<newline>'' @
            ''- Provide a clear, concise, and professionally rephrased message suitable for client communication.\<newline>'' @
            ''- Ensure the message is error-free, respectful, and easy to understand.\<newline>'')"

definition Email_instruction :: jsstring where
  "Email_instruction = ascii ''Compose a formal, professionally-worded email, including appropriate greetings and closing remarks for client communication.''"

text \<open>The apostrophe of the Chat entry is U+2019, not an ASCII character.\<close>

definition Chat_instruction :: jsstring where
  "Chat_instruction =
     ascii ''Compose a friendly, concise chat message that'' @ [0x2019] @
     ascii ''s suitable for instant messaging with a client. Use a warm, approachable greeting, and keep the tone polite yet slightly informal.''"

definition Report_instruction :: jsstring where
  "Report_instruction = ascii ''Create a structured, professional report with key points organized clearly, suitable for client presentation.''"

definition Notification_instruction :: jsstring where
  "Notification_instruction = ascii ''Draft a concise and polite notification, focusing on essential details and clarity, suitable for quick client updates.''"

text \<open>The own properties of the object literal \<open>MODE_INSTRUCTIONS\<close>.\<close>

definition MODE_INSTRUCTIONS :: "(jsstring \<times> jsstring) list" where
  "MODE_INSTRUCTIONS =
     [(ascii ''Email'', Email_instruction),
      (ascii ''Chat'', Chat_instruction),
      (ascii ''Report'', Report_instruction),
      (ascii ''Notification'', Notification_instruction)]"

text \<open>
  An object literal has \<open>Object.prototype\<close> as its prototype. These are the property
  names ECMA-262 defines on it (with Annex B, which every browser implements); each
  holds an object, so each is truthy.
\<close>

definition Object_prototype_names :: "jsstring list" where
  "Object_prototype_names =
     [ascii ''constructor'', ascii ''hasOwnProperty'', ascii ''isPrototypeOf'',
      ascii ''propertyIsEnumerable'', ascii ''toLocaleString'', ascii ''toString'',
      ascii ''valueOf'', ascii ''__proto__'', ascii ''__defineGetter__'',
      ascii ''__defineSetter__'', ascii ''__lookupGetter__'', ascii ''__lookupSetter__'']"

text \<open>
  The property read \<open>MODE_INSTRUCTIONS[mode]\<close>: an own property if there is one, else
  the member inherited from \<open>Object.prototype\<close>, else \<open>undefined\<close>.
\<close>

definition MODE_INSTRUCTIONS_at :: "jsstring \<Rightarrow> jsval" where
  "MODE_INSTRUCTIONS_at k =
     (case map_of MODE_INSTRUCTIONS k of
        Some s \<Rightarrow> Str s
      | None \<Rightarrow> if k \<in> set Object_prototype_names then Builtin k else Undefined)"

definition default_instruction :: jsstring where
  "default_instruction = ascii ''Provide a polite, professional message appropriate for client communication.''"

definition failure_text :: jsstring where
  "failure_text = ascii ''Sorry, something went wrong. Please try again.''"

subsection \<open>The component state and its change handlers\<close>

record FormState =
  inputMessage :: jsstring
  outputMessage :: jsstring
  loading :: bool
  mode :: jsstring
  customInstruction :: jsstring

text \<open>The arguments of the five \<open>useState\<close> calls.\<close>

definition initial_state :: FormState where
  "initial_state = \<lparr>inputMessage = [], outputMessage = [], loading = False,
     mode = ascii ''Email'', customInstruction = []\<rparr>"

text \<open>
  Each change handler stores \<open>event.target.value\<close>, a string. \<open>handleModeChange\<close> casts
  it to the key type without a check, so at run time \<open>mode\<close> holds whatever string the
  event carried.
\<close>

definition handleInputChange :: "jsstring \<Rightarrow> FormState \<Rightarrow> FormState" where
  "handleInputChange v st = st\<lparr>inputMessage := v\<rparr>"

definition handleModeChange :: "jsstring \<Rightarrow> FormState \<Rightarrow> FormState" where
  "handleModeChange v st = st\<lparr>mode := v\<rparr>"

definition handleCustomInstructionChange :: "jsstring \<Rightarrow> FormState \<Rightarrow> FormState" where
  "handleCustomInstructionChange v st = st\<lparr>customInstruction := v\<rparr>"

definition getModeInstruction :: "runtime \<Rightarrow> FormState \<Rightarrow> jsval" where
  "getModeInstruction rt st =
     (let baseInstruction = or_else (MODE_INSTRUCTIONS_at (mode st)) (Str default_instruction)
      in if truthy (Str (customInstruction st))
         then Str (ToString rt baseInstruction @ ascii '' '' @ customInstruction st)
         else baseInstruction)"

subsection \<open>The request\<close>

record request =
  url :: jsstring
  http_method :: jsstring
  headers :: "(jsstring \<times> jsstring) list"
  body :: jsstring

text \<open>The object handed to \<open>JSON.stringify\<close>.\<close>

definition payload :: "runtime \<Rightarrow> FormState \<Rightarrow> json" where
  "payload rt st =
     JObject
       [(ascii ''model'', JString (ascii ''gpt-4'')),
        (ascii ''messages'', JArray
           [JObject [(ascii ''role'', JString (ascii ''system'')),
                     (ascii ''content'', JString SYSTEM_MESSAGE)],
            JObject [(ascii ''role'', JString (ascii ''user'')),
                     (ascii ''content'',
                        JString (AI_PROMPT rt (inputMessage st) (getModeInstruction rt st)))]]),
        (ascii ''max_tokens'', JNum 1000),
        (ascii ''temperature'', JNum (1 / 2))]"

definition fetch_request :: "runtime \<Rightarrow> FormState \<Rightarrow> request" where
  "fetch_request rt st =
     \<lparr>url = ascii ''https://api.openai.com/v1/chat/completions'',
      http_method = ascii ''POST'',
      headers =
        [(ascii ''Content-Type'', ascii ''application/json''),
         (ascii ''Authorization'',
            ascii ''Bearer '' @
            ToString rt (case openAiApiKey rt of None \<Rightarrow> Undefined | Some k \<Rightarrow> Str k))],
      body = JSON_stringify rt (payload rt st)\<rparr>"

subsection \<open>The reply\<close>

datatype js_error = TypeError | SyntaxError | Error jsstring | DOMException jsstring

text \<open>
  What \<open>response.json()\<close> settles to: a rejection, or the parsed body. What \<open>fetch\<close>
  settles to: a rejection (no response at all), or a response with its status.
  \<open>response.ok\<close> is true for the statuses 200 to 299.
\<close>

datatype json_result = JsonRejected js_error | Parsed json

record response =
  status :: nat
  json_body :: json_result

datatype fetch_result = Rejected js_error | Resolved response

definition response_ok :: "response \<Rightarrow> bool" where
  "response_ok r = (200 \<le> status r \<and> status r \<le> 299)"

text \<open>
  Reading \<open>data.choices[0].message.content.trim()\<close>. A value is \<open>None\<close> for
  \<open>undefined\<close>. Reading a property of \<open>undefined\<close> or \<open>null\<close> throws a TypeError; on
  any other value it gives the own property or \<open>undefined\<close>. (None of the names
  \<open>choices\<close>, \<open>message\<close>, \<open>content\<close> and \<open>0\<close> is defined on a built-in prototype,
  so nothing is inherited here. \<open>get_named\<close> is used with these names only.)
\<close>

definition then_do :: "js_error + 'a \<Rightarrow> ('a \<Rightarrow> js_error + 'b) \<Rightarrow> js_error + 'b" where
  "then_do r f = (case r of Inl e \<Rightarrow> Inl e | Inr v \<Rightarrow> f v)"

fun get_named :: "jsstring \<Rightarrow> json option \<Rightarrow> js_error + json option" where
  "get_named k None = Inl TypeError"
| "get_named k (Some JNull) = Inl TypeError"
| "get_named k (Some (JObject ps)) = Inr (map_of ps k)"
| "get_named k (Some v) = Inr None"

fun get_index0 :: "json option \<Rightarrow> js_error + json option" where
  "get_index0 None = Inl TypeError"
| "get_index0 (Some JNull) = Inl TypeError"
| "get_index0 (Some (JArray xs)) = Inr (case xs of [] \<Rightarrow> None | x # _ \<Rightarrow> Some x)"
| "get_index0 (Some (JObject ps)) = Inr (map_of ps (ascii ''0''))"
| "get_index0 (Some (JString s)) = Inr (case s of [] \<Rightarrow> None | c # _ \<Rightarrow> Some (JString [c]))"
| "get_index0 (Some v) = Inr None"

text \<open>
  The call \<open>v.trim()\<close>: on a string it is \<open>String.prototype.trim\<close>; on \<open>undefined\<close>
  and \<open>null\<close> the property read throws; on any other parsed value \<open>v.trim\<close> is not a
  function (a parsed value never holds one), and calling it throws.
\<close>

fun call_trim :: "json option \<Rightarrow> js_error + jsstring" where
  "call_trim (Some (JString s)) = Inr (trim s)"
| "call_trim v = Inl TypeError"

definition choices_0_message_content :: "json \<Rightarrow> js_error + json option" where
  "choices_0_message_content data =
     then_do (get_named (ascii ''choices'') (Some data)) (\<lambda>choices.
     then_do (get_index0 choices) (\<lambda>choice.
     then_do (get_named (ascii ''message'') choice) (\<lambda>message.
     get_named (ascii ''content'') message)))"

subsection \<open>The submit handler\<close>

text \<open>
  \<open>handleSubmit\<close> as a program: one constructor per statement, in source order; an
  \<open>await\<close> is a constructor that holds the continuation, so the caller sees where the
  handler is suspended. State setters are taken to act on the state in the order
  they are called.
\<close>

datatype proc =
    Return
  | PreventDefault proc
  | SetLoading bool proc
  | SetOutputMessage jsstring proc
  | ConsoleError js_error proc
  | AwaitFetch request "fetch_result \<Rightarrow> proc"
  | AwaitJson response "json_result \<Rightarrow> proc"

text \<open>The \<open>catch\<close> block followed by the \<open>finally\<close> block.\<close>

definition catch_block :: "js_error \<Rightarrow> proc" where
  "catch_block e = ConsoleError e (SetOutputMessage failure_text (SetLoading False Return))"

text \<open>
  The handler is written in three pieces, cut at its two \<open>await\<close>s:
  \<open>handleSubmit\<close> runs up to \<open>await fetch(...)\<close>, \<open>after_fetch\<close> runs from the
  settled fetch up to \<open>await response.json()\<close>, and \<open>after_json\<close> runs from the
  settled body to the end. Everything from the fetch on is inside \<open>try\<close>, so each
  rejection and each throw goes to \<open>catch_block\<close>.
\<close>

definition after_json :: "json_result \<Rightarrow> proc" where
  "after_json parsed =
     (case parsed of
        JsonRejected e \<Rightarrow> catch_block e
      | Parsed data \<Rightarrow>
          (case then_do (choices_0_message_content data) call_trim of
             Inl e \<Rightarrow> catch_block e
           | Inr content \<Rightarrow> SetOutputMessage content (SetLoading False Return)))"

definition after_fetch :: "fetch_result \<Rightarrow> proc" where
  "after_fetch settled =
     (case settled of
        Rejected e \<Rightarrow> catch_block e
      | Resolved resp \<Rightarrow>
          if \<not> response_ok resp
          then catch_block (Error (ascii ''Failed to fetch response from OpenAI API''))
          else AwaitJson resp after_json)"

definition handleSubmit :: "runtime \<Rightarrow> FormState \<Rightarrow> proc" where
  "handleSubmit rt st =
     PreventDefault
       (if \<not> truthy (Str (trim (inputMessage st))) then Return
        else
          SetLoading True
            (SetOutputMessage []
               (AwaitFetch (fetch_request rt st) after_fetch)))"

subsection \<open>Running the handler\<close>

text \<open>
  The network is a function from the request sent to what \<open>fetch\<close> settles to.
  \<open>exec\<close> gives the form state when the handler has finished; \<open>trace\<close> lists what
  happened on the way, each state change with the state it produced and each
  suspension with the state that is on display while the handler waits.
\<close>

datatype event =
    DefaultPrevented
  | Updated FormState
  | Logged js_error
  | Fetching request FormState
  | Reading response FormState

primrec exec :: "(request \<Rightarrow> fetch_result) \<Rightarrow> proc \<Rightarrow> FormState \<Rightarrow> FormState" where
  "exec net Return s = s"
| "exec net (PreventDefault p) s = exec net p s"
| "exec net (SetLoading b p) s = exec net p (s\<lparr>loading := b\<rparr>)"
| "exec net (SetOutputMessage m p) s = exec net p (s\<lparr>outputMessage := m\<rparr>)"
| "exec net (ConsoleError e p) s = exec net p s"
| "exec net (AwaitFetch r k) s = exec net (k (net r)) s"
| "exec net (AwaitJson resp k) s = exec net (k (json_body resp)) s"

primrec trace :: "(request \<Rightarrow> fetch_result) \<Rightarrow> proc \<Rightarrow> FormState \<Rightarrow> event list" where
  "trace net Return s = []"
| "trace net (PreventDefault p) s = DefaultPrevented # trace net p s"
| "trace net (SetLoading b p) s = Updated (s\<lparr>loading := b\<rparr>) # trace net p (s\<lparr>loading := b\<rparr>)"
| "trace net (SetOutputMessage m p) s =
     Updated (s\<lparr>outputMessage := m\<rparr>) # trace net p (s\<lparr>outputMessage := m\<rparr>)"
| "trace net (ConsoleError e p) s = Logged e # trace net p s"
| "trace net (AwaitFetch r k) s = Fetching r s # trace net (k (net r)) s"
| "trace net (AwaitJson resp k) s = Reading resp s # trace net (k (json_body resp)) s"

fun requests :: "event list \<Rightarrow> request list" where
  "requests [] = []"
| "requests (Fetching r s # es) = r # requests es"
| "requests (e # es) = requests es"

fun updates :: "event list \<Rightarrow> FormState list" where
  "updates [] = []"
| "updates (Updated s # es) = s # updates es"
| "updates (e # es) = updates es"

fun logged :: "event list \<Rightarrow> js_error list" where
  "logged [] = []"
| "logged (Logged e # es) = e # logged es"
| "logged (e # es) = logged es"

text \<open>The states on display while the handler is suspended at an \<open>await\<close>.\<close>

fun awaiting :: "event list \<Rightarrow> FormState list" where
  "awaiting [] = []"
| "awaiting (Fetching r s # es) = s # awaiting es"
| "awaiting (Reading r s # es) = s # awaiting es"
| "awaiting (e # es) = awaiting es"

definition submit :: "runtime \<Rightarrow> (request \<Rightarrow> fetch_result) \<Rightarrow> FormState \<Rightarrow> FormState" where
  "submit rt net st = exec net (handleSubmit rt st) st"

definition submit_trace :: "runtime \<Rightarrow> (request \<Rightarrow> fetch_result) \<Rightarrow> FormState \<Rightarrow> event list" where
  "submit_trace rt net st = trace net (handleSubmit rt st) st"

definition network_calls :: "runtime \<Rightarrow> (request \<Rightarrow> fetch_result) \<Rightarrow> FormState \<Rightarrow> request list" where
  "network_calls rt net st = requests (submit_trace rt net st)"

subsection \<open>Example inputs\<close>

text \<open>
  Concrete inputs for the examples below: a runtime (its serialiser is a stand-in; no
  example depends on what it prints), a filled-in form, the reply used by the
  specification's fourth testable property, a reply whose message has no \<open>content\<close>,
  a network that answers every request with a given status and body, and one that is
  unreachable.
\<close>

definition example_runtime :: runtime where
  "example_runtime = \<lparr>openAiApiKey = Some (ascii ''sk-test''),
     builtin_text = (\<lambda>k. ascii ''function '' @ k @ ascii ''() { [native code] }''),
     JSON_stringify = (\<lambda>j. ascii ''{}'')\<rparr>"

definition example_state :: FormState where
  "example_state = \<lparr>inputMessage = ascii ''pls send invoice'',
     outputMessage = ascii ''an earlier answer'', loading = False,
     mode = ascii ''Chat'', customInstruction = ascii ''Keep it short.''\<rparr>"

definition hello_body :: json where
  "hello_body = JObject [(ascii ''choices'', JArray [JObject [(ascii ''message'',
     JObject [(ascii ''content'', JString (ascii '' Hello, client. ''))])]])]"

definition missing_content_body :: json where
  "missing_content_body = JObject [(ascii ''choices'', JArray [JObject [(ascii ''message'',
     JObject [(ascii ''role'', JString (ascii ''assistant''))])]])]"

definition reply_with :: "nat \<Rightarrow> json_result \<Rightarrow> request \<Rightarrow> fetch_result" where
  "reply_with code b r = Resolved \<lparr>status = code, json_body = b\<rparr>"

definition offline :: "request \<Rightarrow> fetch_result" where
  "offline r = Rejected TypeError"

section \<open>Properties\<close>

subsection \<open>Evaluating the constants\<close>

lemma entries_nonempty:
  "Email_instruction \<noteq> []" "Chat_instruction \<noteq> []" "Report_instruction \<noteq> []"
  "Notification_instruction \<noteq> []" "default_instruction \<noteq> []"
  by (simp_all add: Email_instruction_def Chat_instruction_def Report_instruction_def
      Notification_instruction_def default_instruction_def ascii_def)

lemma own_lookup:
  "map_of MODE_INSTRUCTIONS (ascii ''Email'') = Some Email_instruction"
  "map_of MODE_INSTRUCTIONS (ascii ''Chat'') = Some Chat_instruction"
  "map_of MODE_INSTRUCTIONS (ascii ''Report'') = Some Report_instruction"
  "map_of MODE_INSTRUCTIONS (ascii ''Notification'') = Some Notification_instruction"
  by (simp_all add: MODE_INSTRUCTIONS_def ascii_def)

lemma own_names:
  "map_of MODE_INSTRUCTIONS k = None \<longleftrightarrow>
     k \<notin> {ascii ''Email'', ascii ''Chat'', ascii ''Report'', ascii ''Notification''}"
  by (auto simp add: MODE_INSTRUCTIONS_def)

lemma trim_example_input: "trim (inputMessage example_state) \<noteq> []"
  by (simp add: example_state_def trim_def ascii_def isWhiteSpace_def)

lemma trim_blank:
  "trim [] = []" "trim (ascii '' '') = []" "trim (ascii ''\<newline>'' @ [0x0009]) = []"
  by (simp_all add: trim_def ascii_def isWhiteSpace_def)

lemma trim_hello: "trim (ascii '' Hello, client. '') = ascii ''Hello, client.''"
  by (simp add: trim_def ascii_def isWhiteSpace_def)

lemma hello_content:
  "choices_0_message_content hello_body = Inr (Some (JString (ascii '' Hello, client. '')))"
  by (simp add: choices_0_message_content_def hello_body_def then_do_def ascii_def)

subsection \<open>The pieces of the handler\<close>

lemma handleSubmit_rejected:
  "trim (inputMessage st) = [] \<Longrightarrow> handleSubmit rt st = PreventDefault Return"
  by (simp add: handleSubmit_def)

lemma handleSubmit_accepted:
  "trim (inputMessage st) \<noteq> [] \<Longrightarrow>
     handleSubmit rt st =
       PreventDefault (SetLoading True (SetOutputMessage []
         (AwaitFetch (fetch_request rt st) after_fetch)))"
  by (simp add: handleSubmit_def)

lemma exec_catch_block:
  "exec net (catch_block e) s = s\<lparr>outputMessage := failure_text, loading := False\<rparr>"
  by (simp add: catch_block_def)

lemma trace_catch_block:
  "trace net (catch_block e) s =
     [Logged e, Updated (s\<lparr>outputMessage := failure_text\<rparr>),
      Updated (s\<lparr>outputMessage := failure_text, loading := False\<rparr>)]"
  by (simp add: catch_block_def)

lemma after_json_quiet:
  "requests (trace net (after_json parsed) s) = []"
  "awaiting (trace net (after_json parsed) s) = []"
  by (simp_all add: after_json_def trace_catch_block split: json_result.split sum.split)

lemma after_fetch_quiet:
  "requests (trace net (after_fetch settled) s) = []"
  "set (awaiting (trace net (after_fetch settled) s)) \<subseteq> {s}"
  by (simp_all add: after_fetch_def trace_catch_block after_json_quiet
      split: fetch_result.split)

lemma submit_trace_accepted:
  assumes "trim (inputMessage st) \<noteq> []"
  shows "submit_trace rt net st =
           [DefaultPrevented,
            Updated (st\<lparr>loading := True\<rparr>),
            Updated (st\<lparr>loading := True, outputMessage := []\<rparr>),
            Fetching (fetch_request rt st) (st\<lparr>loading := True, outputMessage := []\<rparr>)]
           @ trace net (after_fetch (net (fetch_request rt st)))
               (st\<lparr>loading := True, outputMessage := []\<rparr>)"
  by (simp add: submit_trace_def handleSubmit_accepted [OF assms])

lemma network_calls_eq:
  "network_calls rt net st = (if trim (inputMessage st) = [] then [] else [fetch_request rt st])"
proof (cases "trim (inputMessage st) = []")
  case True
  then show ?thesis
    by (simp add: network_calls_def submit_trace_def handleSubmit_rejected)
next
  case False
  then show ?thesis
    by (simp add: network_calls_def submit_trace_accepted after_fetch_quiet)
qed

lemma not_string_throws:
  assumes "\<forall>c. choices_0_message_content data \<noteq> Inr (Some (JString c))"
  shows "\<exists>e. then_do (choices_0_message_content data) call_trim = Inl e"
proof (cases "choices_0_message_content data")
  case (Inl e)
  then show ?thesis by (simp add: then_do_def)
next
  case (Inr v)
  with assms have "\<forall>c. v \<noteq> Some (JString c)" by simp
  then have "call_trim v = Inl TypeError"
    by (cases v rule: call_trim.cases) simp_all
  with Inr show ?thesis by (simp add: then_do_def)
qed

text \<open>
  What the reads of \<open>choices_0_message_content\<close> find, said on the parsed value itself:
  a string comes out only when the body is an object whose \<open>choices\<close> has, as its
  element 0, an object whose \<open>message\<close> is an object whose \<open>content\<close> is that string.
  Element 0 is the first element of an array or the property \<open>0\<close> of an object.
\<close>

lemma get_named_Some:
  assumes "get_named k v = Inr (Some x)"
  shows "\<exists>ps. v = Some (JObject ps) \<and> map_of ps k = Some x"
  using assms by (cases "(k, v)" rule: get_named.cases) simp_all

lemma get_index0_object:
  assumes "get_index0 v = Inr (Some (JObject qs))"
  shows "(\<exists>rest. v = Some (JArray (JObject qs # rest))) \<or>
         (\<exists>cs. v = Some (JObject cs) \<and> map_of cs (ascii ''0'') = Some (JObject qs))"
  using assms by (cases v rule: get_index0.cases) (simp_all split: list.splits)

lemma content_string_shape:
  assumes "choices_0_message_content data = Inr (Some (JString c))"
  shows "\<exists>ps choices qs ms.
           data = JObject ps \<and>
           map_of ps (ascii ''choices'') = Some choices \<and>
           ((\<exists>rest. choices = JArray (JObject qs # rest)) \<or>
            (\<exists>cs. choices = JObject cs \<and> map_of cs (ascii ''0'') = Some (JObject qs))) \<and>
           map_of qs (ascii ''message'') = Some (JObject ms) \<and>
           map_of ms (ascii ''content'') = Some (JString c)"
proof -
  from assms obtain v1 v2 v3 where
    r1: "get_named (ascii ''choices'') (Some data) = Inr v1" and
    r2: "get_index0 v1 = Inr v2" and
    r3: "get_named (ascii ''message'') v2 = Inr v3" and
    r4: "get_named (ascii ''content'') v3 = Inr (Some (JString c))"
    by (auto simp: choices_0_message_content_def then_do_def split: sum.splits)
  from get_named_Some [OF r4] obtain ms where
    ms: "v3 = Some (JObject ms)" "map_of ms (ascii ''content'') = Some (JString c)" by blast
  from get_named_Some [OF r3 [unfolded ms(1)]] obtain qs where
    qs: "v2 = Some (JObject qs)" "map_of qs (ascii ''message'') = Some (JObject ms)" by blast
  from get_index0_object [OF r2 [unfolded qs(1)]] obtain choices where
    ch: "v1 = Some choices"
      "(\<exists>rest. choices = JArray (JObject qs # rest)) \<or>
       (\<exists>cs. choices = JObject cs \<and> map_of cs (ascii ''0'') = Some (JObject qs))"
    by blast
  from get_named_Some [OF r1 [unfolded ch(1)]] obtain ps where
    ps: "data = JObject ps" "map_of ps (ascii ''choices'') = Some choices" by blast
  from ps ch(2) qs(2) ms(2) show ?thesis by blast
qed

lemma missing_content_shape:
  "\<not> (\<exists>ps choices qs ms c.
          missing_content_body = JObject ps \<and>
          map_of ps (ascii ''choices'') = Some choices \<and>
          ((\<exists>rest. choices = JArray (JObject qs # rest)) \<or>
           (\<exists>cs. choices = JObject cs \<and> map_of cs (ascii ''0'') = Some (JObject qs))) \<and>
          map_of qs (ascii ''message'') = Some (JObject ms) \<and>
          map_of ms (ascii ''content'') = Some (JString c))"
  by (auto simp: missing_content_body_def ascii_def)

subsection \<open>The empty-input guard\<close>

text \<open>
  C1. When the trimmed \<open>inputMessage\<close> is empty (as for the empty string, a single
  space, or a newline followed by a tab), \<open>submit\<close> issues no network call and the
  \<open>outputMessage\<close> it leaves is the one it found.
\<close>

theorem empty_input_no_call:
  assumes "trim (inputMessage st) = []"
  shows "network_calls rt net st = [] \<and> outputMessage (submit rt net st) = outputMessage st"
  using assms
  by (simp add: network_calls_eq submit_def handleSubmit_rejected)

theorem empty_input_no_call_witness:
  "trim (inputMessage (handleInputChange (ascii ''\<newline>'' @ [0x0009]) example_state)) = [] \<and>
   network_calls example_runtime (reply_with 200 (Parsed hello_body))
     (handleInputChange (ascii ''\<newline>'' @ [0x0009]) example_state) = [] \<and>
   outputMessage (submit example_runtime (reply_with 200 (Parsed hello_body))
     (handleInputChange (ascii ''\<newline>'' @ [0x0009]) example_state)) = ascii ''an earlier answer'' \<and>
   network_calls example_runtime (reply_with 200 (Parsed hello_body))
     (handleInputChange (ascii '' '') example_state) = [] \<and>
   network_calls example_runtime (reply_with 200 (Parsed hello_body))
     (handleInputChange [] example_state) = []"
  using
    empty_input_no_call [of "handleInputChange (ascii ''\<newline>'' @ [0x0009]) example_state"
      example_runtime "reply_with 200 (Parsed hello_body)"]
    empty_input_no_call [of "handleInputChange (ascii '' '') example_state"
      example_runtime "reply_with 200 (Parsed hello_body)"]
    empty_input_no_call [of "handleInputChange [] example_state"
      example_runtime "reply_with 200 (Parsed hello_body)"]
  by (simp add: handleInputChange_def trim_blank) (simp add: example_state_def)

text \<open>
  C9. A rejected submission leaves the whole form state as it was: no setter runs (so
  \<open>loading\<close> is never set), no request is sent, nothing is logged and the handler
  never suspends. The one call the handler makes before the guard is
  \<open>event.preventDefault()\<close>, which keeps the browser from reloading the page.
\<close>

theorem rejected_submission_frame:
  assumes "trim (inputMessage st) = []"
  shows "submit rt net st = st \<and>
         updates (submit_trace rt net st) = [] \<and>
         requests (submit_trace rt net st) = [] \<and>
         logged (submit_trace rt net st) = [] \<and>
         awaiting (submit_trace rt net st) = []"
  using assms
  by (simp add: submit_trace_def submit_def handleSubmit_rejected)

theorem rejected_submission_frame_witness:
  "trim (inputMessage (handleInputChange (ascii '' '') example_state)) = [] \<and>
   submit example_runtime offline (handleInputChange (ascii '' '') example_state)
     = handleInputChange (ascii '' '') example_state \<and>
   loading (submit example_runtime offline (handleInputChange (ascii '' '') example_state)) = False \<and>
   updates (submit_trace example_runtime offline (handleInputChange (ascii '' '') example_state)) = [] \<and>
   requests (submit_trace example_runtime offline (handleInputChange (ascii '' '') example_state)) = [] \<and>
   logged (submit_trace example_runtime offline (handleInputChange (ascii '' '') example_state)) = []"
  using rejected_submission_frame [of "handleInputChange (ascii '' '') example_state"
      example_runtime offline]
  by (simp add: handleInputChange_def trim_blank) (simp add: example_state_def)

subsection \<open>The instruction text\<close>

text \<open>
  C2. For each of the four modes Email, Chat, Report and Notification,
  \<open>getModeInstruction\<close> returns the catalogue entry of the mode when
  \<open>customInstruction\<close> is empty, and the entry, one space and \<open>customInstruction\<close>
  when it is not.
\<close>

theorem catalogue_instruction:
  assumes "mode st \<in> {ascii ''Email'', ascii ''Chat'', ascii ''Report'', ascii ''Notification''}"
  shows "\<exists>entry. map_of MODE_INSTRUCTIONS (mode st) = Some entry \<and>
           getModeInstruction rt st =
             Str (if customInstruction st = [] then entry
                  else entry @ ascii '' '' @ customInstruction st)"
  using assms
  by (auto simp: getModeInstruction_def MODE_INSTRUCTIONS_at_def or_else_def own_lookup
      entries_nonempty)

theorem catalogue_instruction_witness:
  "mode example_state \<in> {ascii ''Email'', ascii ''Chat'', ascii ''Report'', ascii ''Notification''} \<and>
   getModeInstruction example_runtime example_state =
     Str (Chat_instruction @ ascii '' '' @ ascii ''Keep it short.'') \<and>
   getModeInstruction example_runtime initial_state = Str Email_instruction"
  using catalogue_instruction [of example_state example_runtime]
    catalogue_instruction [of initial_state example_runtime]
  by (simp add: example_state_def initial_state_def own_lookup) (simp add: ascii_def)

text \<open>
  A mode that is neither one of the four keys nor a name defined on
  \<open>Object.prototype\<close> gets the default instruction, with the custom instruction
  after one space when there is one.
\<close>

lemma unknown_mode_default:
  assumes "mode st \<notin> {ascii ''Email'', ascii ''Chat'', ascii ''Report'', ascii ''Notification''}"
    and "mode st \<notin> set Object_prototype_names"
  shows "getModeInstruction rt st =
           Str (if customInstruction st = [] then default_instruction
                else default_instruction @ ascii '' '' @ customInstruction st)"
  using assms own_names [of "mode st"]
  by (simp add: getModeInstruction_def MODE_INSTRUCTIONS_at_def or_else_def)

text \<open>
  C3, at the mode \<open>toString\<close>. The name is outside the four keys, but the object
  literal inherits a member of that name, which is truthy, so \<open>||\<close> does not reach
  the default: with no custom instruction \<open>getModeInstruction\<close> returns the inherited
  function, and with one it returns the engine's text for that function followed by
  the custom instruction. In neither case is the result built from the default
  instruction.
\<close>

theorem inherited_name_skips_default:
  "ascii ''toString'' \<notin> {ascii ''Email'', ascii ''Chat'', ascii ''Report'', ascii ''Notification''} \<and>
   getModeInstruction rt (handleModeChange (ascii ''toString'') initial_state)
     = Builtin (ascii ''toString'') \<and>
   getModeInstruction rt (handleModeChange (ascii ''toString'') initial_state)
     \<noteq> Str default_instruction \<and>
   getModeInstruction rt
       (handleCustomInstructionChange (ascii ''Be brief.'')
          (handleModeChange (ascii ''toString'') initial_state))
     = Str (builtin_text rt (ascii ''toString'') @ ascii '' '' @ ascii ''Be brief.'')"
  by (simp add: getModeInstruction_def handleModeChange_def handleCustomInstructionChange_def
      initial_state_def MODE_INSTRUCTIONS_at_def MODE_INSTRUCTIONS_def Object_prototype_names_def
      or_else_def ascii_def)

subsection \<open>The reply\<close>

text \<open>
  C4. When the request is answered with a status from 200 to 299 and a body that parses
  to an object whose \<open>choices\<close> is an array, whose first element is an object, whose
  \<open>message\<close> is an object, whose \<open>content\<close> is a string, \<open>submit\<close> leaves that
  string, trimmed at both ends, in \<open>outputMessage\<close>, and \<open>loading\<close> false. The example
  of the specification (content \<open>" Hello, client. "\<close>, output \<open>"Hello, client."\<close>) is
  the witness.
\<close>

theorem success_sets_trimmed_content:
  assumes "trim (inputMessage st) \<noteq> []"
    and "net (fetch_request rt st) = Resolved resp"
    and "200 \<le> status resp" and "status resp \<le> 299"
    and "json_body resp = Parsed (JObject ps)"
    and "map_of ps (ascii ''choices'') = Some (JArray (JObject qs # rest))"
    and "map_of qs (ascii ''message'') = Some (JObject ms)"
    and "map_of ms (ascii ''content'') = Some (JString c)"
  shows "outputMessage (submit rt net st) = trim c \<and> loading (submit rt net st) = False"
  using assms
  by (simp add: submit_def handleSubmit_accepted after_fetch_def after_json_def response_ok_def
      choices_0_message_content_def then_do_def)

theorem success_sets_trimmed_content_witness:
  "trim (inputMessage example_state) \<noteq> [] \<and>
   reply_with 200 (Parsed hello_body) (fetch_request example_runtime example_state)
     = Resolved \<lparr>status = 200, json_body = Parsed hello_body\<rparr> \<and>
   hello_body = JObject [(ascii ''choices'', JArray [JObject [(ascii ''message'',
     JObject [(ascii ''content'', JString (ascii '' Hello, client. ''))])]])] \<and>
   outputMessage (submit example_runtime (reply_with 200 (Parsed hello_body)) example_state)
     = ascii ''Hello, client.'' \<and>
   loading (submit example_runtime (reply_with 200 (Parsed hello_body)) example_state) = False"
  using success_sets_trimmed_content [of example_state "reply_with 200 (Parsed hello_body)"
      example_runtime "\<lparr>status = 200, json_body = Parsed hello_body\<rparr>"
      "[(ascii ''choices'', JArray [JObject [(ascii ''message'',
          JObject [(ascii ''content'', JString (ascii '' Hello, client. ''))])]])]"
      "[(ascii ''message'', JObject [(ascii ''content'', JString (ascii '' Hello, client. ''))])]"
      "[]"
      "[(ascii ''content'', JString (ascii '' Hello, client. ''))]"
      "ascii '' Hello, client. ''"]
  by (simp add: trim_example_input reply_with_def trim_hello hello_body_def)

text \<open>
  C5. When the submission fails, \<open>submit\<close> leaves exactly the text
  \<open>"Sorry, something went wrong. Please try again."\<close> in \<open>outputMessage\<close>, and
  \<open>loading\<close> false. A submission fails when \<open>fetch\<close> rejects (a network error), when
  the status is below 200 or above 299, when reading the body rejects, or when the
  parsed body has no string at \<open>choices[0].message.content\<close>: it is not an object
  whose \<open>choices\<close> has as element 0 (the first element of an array, or the property
  \<open>0\<close> of an object) an object whose \<open>message\<close> is an object whose \<open>content\<close> is a
  string.
\<close>

theorem failure_sets_fixed_text:
  assumes "trim (inputMessage st) \<noteq> []"
    and "net (fetch_request rt st) = settled"
    and "(\<exists>e. settled = Rejected e) \<or>
         (\<exists>resp. settled = Resolved resp \<and>
            (status resp < 200 \<or> 299 < status resp \<or>
             (\<exists>e. json_body resp = JsonRejected e) \<or>
             (\<exists>data. json_body resp = Parsed data \<and>
                \<not> (\<exists>ps choices qs ms c.
                      data = JObject ps \<and>
                      map_of ps (ascii ''choices'') = Some choices \<and>
                      ((\<exists>rest. choices = JArray (JObject qs # rest)) \<or>
                       (\<exists>cs. choices = JObject cs \<and>
                             map_of cs (ascii ''0'') = Some (JObject qs))) \<and>
                      map_of qs (ascii ''message'') = Some (JObject ms) \<and>
                      map_of ms (ascii ''content'') = Some (JString c)))))"
  shows "outputMessage (submit rt net st)
           = ascii ''Sorry, something went wrong. Please try again.'' \<and>
         loading (submit rt net st) = False"
proof -
  have start: "submit rt net st =
      exec net (after_fetch settled) (st\<lparr>loading := True, outputMessage := []\<rparr>)"
    using assms(1,2) by (simp add: submit_def handleSubmit_accepted)
  have caught: "exec net (catch_block e) s =
      s\<lparr>outputMessage := ascii ''Sorry, something went wrong. Please try again.'',
        loading := False\<rparr>" for e s
    by (simp add: exec_catch_block failure_text_def)
  from assms(3) consider
      (rejected) e where "settled = Rejected e"
    | (status) resp where "settled = Resolved resp" "\<not> response_ok resp"
    | (unreadable) resp e where "settled = Resolved resp" "response_ok resp"
        "json_body resp = JsonRejected e"
    | (shape) resp data where "settled = Resolved resp" "response_ok resp"
        "json_body resp = Parsed data"
        "\<forall>c. choices_0_message_content data \<noteq> Inr (Some (JString c))"
    using content_string_shape unfolding response_ok_def
    by (metis not_le)
  then show ?thesis
  proof cases
    case rejected
    then show ?thesis by (simp add: start after_fetch_def caught)
  next
    case status
    then show ?thesis by (simp add: start after_fetch_def caught)
  next
    case unreadable
    then show ?thesis by (simp add: start after_fetch_def after_json_def caught)
  next
    case shape
    from not_string_throws [OF shape(4)] obtain e
      where "then_do (choices_0_message_content data) call_trim = Inl e" ..
    with shape show ?thesis
      by (simp add: start after_fetch_def after_json_def caught)
  qed
qed

theorem failure_sets_fixed_text_witness:
  "trim (inputMessage example_state) \<noteq> [] \<and>
   299 < status \<lparr>status = 500, json_body = Parsed hello_body\<rparr> \<and>
   \<not> (\<exists>ps choices qs ms c.
          missing_content_body = JObject ps \<and>
          map_of ps (ascii ''choices'') = Some choices \<and>
          ((\<exists>rest. choices = JArray (JObject qs # rest)) \<or>
           (\<exists>cs. choices = JObject cs \<and> map_of cs (ascii ''0'') = Some (JObject qs))) \<and>
          map_of qs (ascii ''message'') = Some (JObject ms) \<and>
          map_of ms (ascii ''content'') = Some (JString c)) \<and>
   outputMessage (submit example_runtime (reply_with 500 (Parsed hello_body)) example_state)
     = ascii ''Sorry, something went wrong. Please try again.'' \<and>
   loading (submit example_runtime (reply_with 500 (Parsed hello_body)) example_state) = False \<and>
   outputMessage (submit example_runtime offline example_state)
     = ascii ''Sorry, something went wrong. Please try again.'' \<and>
   loading (submit example_runtime offline example_state) = False \<and>
   outputMessage (submit example_runtime (reply_with 200 (JsonRejected SyntaxError)) example_state)
     = ascii ''Sorry, something went wrong. Please try again.'' \<and>
   loading (submit example_runtime (reply_with 200 (JsonRejected SyntaxError)) example_state)
     = False \<and>
   outputMessage (submit example_runtime (reply_with 200 (Parsed missing_content_body))
       example_state)
     = ascii ''Sorry, something went wrong. Please try again.'' \<and>
   loading (submit example_runtime (reply_with 200 (Parsed missing_content_body)) example_state)
     = False"
  using
    failure_sets_fixed_text [of example_state "reply_with 500 (Parsed hello_body)" example_runtime
      "Resolved \<lparr>status = 500, json_body = Parsed hello_body\<rparr>"]
    failure_sets_fixed_text [of example_state offline example_runtime "Rejected TypeError"]
    failure_sets_fixed_text [of example_state "reply_with 200 (JsonRejected SyntaxError)"
      example_runtime "Resolved \<lparr>status = 200, json_body = JsonRejected SyntaxError\<rparr>"]
    failure_sets_fixed_text [of example_state "reply_with 200 (Parsed missing_content_body)"
      example_runtime "Resolved \<lparr>status = 200, json_body = Parsed missing_content_body\<rparr>"]
    missing_content_shape
  by (simp add: trim_example_input reply_with_def offline_def)

subsection \<open>Order of the state changes and the request\<close>

text \<open>
  C6. For a submission that passes the guard, whatever \<open>outputMessage\<close> held before,
  the handler first sets \<open>loading\<close> to true, then \<open>outputMessage\<close> to the empty string,
  and only then sends the request; and at every point where it waits (for the reply,
  for the body) the form shows \<open>loading\<close> true and an empty \<open>outputMessage\<close>.
\<close>

theorem cleared_before_request:
  assumes "trim (inputMessage st) \<noteq> []"
  shows "prefix [DefaultPrevented,
                 Updated (st\<lparr>loading := True\<rparr>),
                 Updated (st\<lparr>loading := True, outputMessage := []\<rparr>),
                 Fetching (fetch_request rt st) (st\<lparr>loading := True, outputMessage := []\<rparr>)]
           (submit_trace rt net st) \<and>
         awaiting (submit_trace rt net st) \<noteq> [] \<and>
         (\<forall>s \<in> set (awaiting (submit_trace rt net st)). loading s \<and> outputMessage s = [])"
proof -
  have "set (awaiting (trace net (after_fetch (net (fetch_request rt st)))
          (st\<lparr>loading := True, outputMessage := []\<rparr>)))
        \<subseteq> {st\<lparr>loading := True, outputMessage := []\<rparr>}"
    by (rule after_fetch_quiet)
  then show ?thesis
    unfolding submit_trace_accepted [OF assms] by (auto intro: prefixI)
qed

theorem cleared_before_request_witness:
  "trim (inputMessage example_state) \<noteq> [] \<and>
   outputMessage example_state \<noteq> [] \<and>
   awaiting (submit_trace example_runtime (reply_with 200 (Parsed hello_body)) example_state)
     = [example_state\<lparr>loading := True, outputMessage := []\<rparr>,
        example_state\<lparr>loading := True, outputMessage := []\<rparr>] \<and>
   prefix [DefaultPrevented,
           Updated (example_state\<lparr>loading := True\<rparr>),
           Updated (example_state\<lparr>loading := True, outputMessage := []\<rparr>),
           Fetching (fetch_request example_runtime example_state)
             (example_state\<lparr>loading := True, outputMessage := []\<rparr>)]
     (submit_trace example_runtime (reply_with 200 (Parsed hello_body)) example_state)"
  using cleared_before_request [of example_state example_runtime
      "reply_with 200 (Parsed hello_body)"]
  by (simp add: trim_example_input submit_trace_accepted reply_with_def after_fetch_def
      response_ok_def after_json_def hello_content then_do_def)
    (simp add: example_state_def ascii_def)

subsection \<open>The request\<close>

text \<open>
  C7. For every input string \<open>I\<close> and every instruction string \<open>T\<close>, the user-message
  content built by \<open>AI_PROMPT\<close> contains \<open>I\<close> and \<open>T\<close> as contiguous substrings, whatever
  their length and whatever characters they hold.
\<close>

theorem prompt_embeds_input_and_instruction:
  "sublist I (AI_PROMPT rt I (Str T)) \<and> sublist T (AI_PROMPT rt I (Str T))"
proof
  show "sublist I (AI_PROMPT rt I (Str T))"
    unfolding AI_PROMPT_def by (rule sublist_appendI)
next
  have "\<exists>before after. AI_PROMPT rt I (Str T) = before @ T @ after"
  proof (intro exI)
    show "AI_PROMPT rt I (Str T) =
      (ascii ''\<newline>Raw Input Text: '' @ I @ ascii ''\<newline>\<newline>Instructions:\<newline>'') @ T @
      ascii (''\<newline>Output Goal:\<newline>'' @
            ''- Provide a clear, concise, and professionally rephrased message suitable for client communication.\<newline>'' @
            ''- Ensure the message is error-free, respectful, and easy to understand.\<newline>'')"
      by (simp add: AI_PROMPT_def)
  qed
  then show "sublist T (AI_PROMPT rt I (Str T))"
    by (simp add: sublist_def)
qed

text \<open>
  C8. Every request a submission sends has as its body the serialisation of an object
  with \<open>model\<close> \<open>"gpt-4"\<close>, a \<open>messages\<close> array of exactly two entries (the system
  directive with role \<open>system\<close>, then the templated prompt with role \<open>user\<close>),
  \<open>max_tokens\<close> 1000 and \<open>temperature\<close> 0.5.
\<close>

theorem request_body_shape:
  assumes "r \<in> set (network_calls rt net st)"
  shows "body r = JSON_stringify rt
           (JObject
              [(ascii ''model'', JString (ascii ''gpt-4'')),
               (ascii ''messages'', JArray
                  [JObject [(ascii ''role'', JString (ascii ''system'')),
                            (ascii ''content'', JString SYSTEM_MESSAGE)],
                   JObject [(ascii ''role'', JString (ascii ''user'')),
                            (ascii ''content'',
                               JString (AI_PROMPT rt (inputMessage st) (getModeInstruction rt st)))]]),
               (ascii ''max_tokens'', JNum 1000),
               (ascii ''temperature'', JNum (1 / 2))])"
  using assms
  by (simp add: network_calls_eq fetch_request_def payload_def split: if_splits)

theorem request_body_shape_witness:
  "fetch_request example_runtime example_state
      \<in> set (network_calls example_runtime (reply_with 200 (Parsed hello_body)) example_state) \<and>
   body (fetch_request example_runtime example_state) = JSON_stringify example_runtime
           (JObject
              [(ascii ''model'', JString (ascii ''gpt-4'')),
               (ascii ''messages'', JArray
                  [JObject [(ascii ''role'', JString (ascii ''system'')),
                            (ascii ''content'', JString SYSTEM_MESSAGE)],
                   JObject [(ascii ''role'', JString (ascii ''user'')),
                            (ascii ''content'',
                               JString (AI_PROMPT example_runtime (inputMessage example_state)
                                  (getModeInstruction example_runtime example_state)))]]),
               (ascii ''max_tokens'', JNum 1000),
               (ascii ''temperature'', JNum (1 / 2))])"
  using request_body_shape [of "fetch_request example_runtime example_state" example_runtime
      "reply_with 200 (Parsed hello_body)" example_state]
  by (simp add: network_calls_eq trim_example_input)

text \<open>
  C10. Two submissions from states that agree on \<open>inputMessage\<close>, \<open>mode\<close> and
  \<open>customInstruction\<close> send the same requests, with the same bodies, whatever
  \<open>outputMessage\<close> and \<open>loading\<close> hold and whatever the network answers.
\<close>

theorem request_depends_on_three_fields:
  assumes "inputMessage s = inputMessage t"
    and "mode s = mode t"
    and "customInstruction s = customInstruction t"
  shows "network_calls rt net s = network_calls rt net' t \<and>
         map body (network_calls rt net s) = map body (network_calls rt net' t)"
proof -
  have "getModeInstruction rt s = getModeInstruction rt t"
    unfolding getModeInstruction_def by (simp only: assms)
  then have "payload rt s = payload rt t"
    unfolding payload_def by (simp only: assms)
  then have "fetch_request rt s = fetch_request rt t"
    unfolding fetch_request_def by (simp only:)
  then show ?thesis
    by (simp add: network_calls_eq assms(1))
qed

theorem request_depends_on_three_fields_witness:
  "inputMessage (example_state\<lparr>outputMessage := [], loading := True\<rparr>) = inputMessage example_state \<and>
   mode (example_state\<lparr>outputMessage := [], loading := True\<rparr>) = mode example_state \<and>
   customInstruction (example_state\<lparr>outputMessage := [], loading := True\<rparr>)
     = customInstruction example_state \<and>
   example_state\<lparr>outputMessage := [], loading := True\<rparr> \<noteq> example_state \<and>
   network_calls example_runtime offline (example_state\<lparr>outputMessage := [], loading := True\<rparr>)
     = [fetch_request example_runtime example_state] \<and>
   network_calls example_runtime (reply_with 200 (Parsed hello_body)) example_state
     = [fetch_request example_runtime example_state]"
  using request_depends_on_three_fields [of "example_state\<lparr>outputMessage := [], loading := True\<rparr>"
      example_state example_runtime offline "reply_with 200 (Parsed hello_body)"]
  by (simp add: network_calls_eq trim_example_input) (simp add: example_state_def)

end
